theory Spec2Isabelle
  imports Main "HOL-Library.Word"
begin

unbundle bit_operations_syntax

section \<open>Data model\<close>

text \<open>
  Go's \<open>uint64\<close> is a 64-bit word: \<open>+\<close>, \<open>*\<close> and \<open>-\<close> wrap around exactly as
  the compiled code does. A \<open>[]byte\<close> or \<open>[32]byte\<close> value is a list of bytes.
\<close>

type_synonym uint64 = "64 word"
type_synonym bytes = "8 word list"

text \<open>
  Runtime panics and returned errors are values. \<open>Errorf\<close> is \<open>fmt.Errorf\<close> wrapping
  a cause, \<open>Failure\<close> an error without cause.
\<close>

datatype error =
    Failure string
  | Errorf string error
  | IndexOutOfRange
  | DivideByZero

text \<open>
  \<open>params.BeaconConfig()\<close>: the constants the functions below read. The package is
  not part of the sources, so the configuration is a parameter of every function
  that reads it. \<open>EpochLength\<close> and \<open>Eth1DataVotingPeriod\<close> are the names the
  earlier revision of the epoch package uses.
\<close>

record BeaconChainConfig =
  SlotsPerEpoch :: uint64
  EpochLength :: uint64
  ShardCount :: uint64
  EpochsPerEth1VotingPeriod :: uint64
  Eth1DataVotingPeriod :: uint64
  DepositContractTreeDepth :: uint64

text \<open>
  The protobuf messages, with the fields the modelled functions read or write. A
  slice of messages holds the messages themselves; a nil entry, on whose fields the
  code would panic, has no counterpart here.
\<close>

record Eth1Data =
  DepositRootHash32 :: bytes
  BlockHash32 :: bytes

record Eth1DataVote =
  Eth1Data :: Eth1Data
  VoteCount :: uint64

record Crosslink =
  Epoch :: uint64
  CrosslinkDataRootHash32 :: bytes

record AttestationData =
  Slot :: uint64
  Shard :: uint64
  BeaconBlockRootHash32 :: bytes
  EpochBoundaryRootHash32 :: bytes
  ShardBlockRootHash32 :: bytes
  JustifiedEpoch :: uint64
  JustifiedBlockRootHash32 :: bytes

record PendingAttestation =
  Data :: AttestationData
  AggregationBitfield :: bytes
  InclusionSlot :: uint64

record 'body BeaconBlock =
  Slot :: uint64
  Body :: 'body

record BeaconState =
  Slot :: uint64
  ValidatorBalances :: "uint64 list"
  ValidatorRegistryUpdateEpoch :: uint64
  CurrentShufflingStartShard :: uint64
  PreviousJustifiedEpoch :: uint64
  JustifiedEpoch :: uint64
  JustificationBitfield :: uint64
  FinalizedEpoch :: uint64
  LatestCrosslinks :: "Crosslink list"
  LatestBlockRootHash32S :: "bytes list"
  LatestRandaoMixes :: "bytes list"
  LatestAttestations :: "PendingAttestation list"
  LatestEth1Data :: Eth1Data
  Eth1DataVotes :: "Eth1DataVote list"

text \<open>
  The functions of package \<open>helpers\<close> that the epoch package calls. The package is
  not part of the sources (only its tests are), so its functions are parameters:
  \<open>PrevEpoch helpers state\<close> stands for \<open>helpers.PrevEpoch(state)\<close>.
\<close>

record helpers_package =
  CurrentEpoch :: "BeaconState \<Rightarrow> uint64"
  PrevEpoch :: "BeaconState \<Rightarrow> uint64"
  NextEpoch :: "BeaconState \<Rightarrow> uint64"
  StartSlot :: "uint64 \<Rightarrow> uint64"
  CurrentEpochCommitteeCount :: "BeaconState \<Rightarrow> uint64"

section \<open>Epoch processing (beacon-chain/core/epoch/epoch\_processing.go)\<close>

text \<open>
  Two revisions of this file are among the sources: the one at this path, and an
  earlier one in \<open>src/unnamed/part_005\<close>, next to the state package's transition
  function, which calls it. Where the two define a function differently, both are
  modelled and the earlier one has the suffix \<open>_legacy\<close>. \<open>CanProcessValidatorRegistry\<close>
  is the same in both but for the names of a field and a constant.
\<close>

subsection \<open>CanProcessEpoch\<close>

text \<open>Go's \<open>%\<close> panics on a zero divisor; the panic is the \<open>Inl\<close> branch.\<close>

definition CanProcessEpoch :: "BeaconChainConfig \<Rightarrow> BeaconState \<Rightarrow> error + bool" where
  "CanProcessEpoch cfg state =
     (if SlotsPerEpoch cfg = 0 then Inl DivideByZero
      else Inr ((Slot state + 1) mod SlotsPerEpoch cfg = 0))"

text \<open>The earlier revision, which the state package's transition function calls.\<close>

definition CanProcessEpoch_legacy :: "BeaconChainConfig \<Rightarrow> BeaconState \<Rightarrow> error + bool" where
  "CanProcessEpoch_legacy cfg state =
     (if EpochLength cfg = 0 then Inl DivideByZero
      else Inr (Slot state mod EpochLength cfg = 0))"

subsection \<open>CanProcessValidatorRegistry\<close>

text \<open>
  The loop \<open>for i := startShard; i < shardsProcessed; i++\<close>, with the index
  \<open>i % ShardCount\<close> into \<open>state.LatestCrosslinks\<close>; a zero \<open>ShardCount\<close> and an
  index past the end of the slice panic.
\<close>

function CanProcessValidatorRegistry_for ::
  "BeaconChainConfig \<Rightarrow> BeaconState \<Rightarrow> uint64 \<Rightarrow> uint64 \<Rightarrow> error + bool" where
  "CanProcessValidatorRegistry_for cfg state shardsProcessed i =
     (if i < shardsProcessed then
        (if ShardCount cfg = 0 then Inl DivideByZero
         else if length (LatestCrosslinks state) \<le> unat (i mod ShardCount cfg)
         then Inl IndexOutOfRange
         else if Epoch (LatestCrosslinks state ! unat (i mod ShardCount cfg))
                   \<le> ValidatorRegistryUpdateEpoch state
         then Inr False
         else CanProcessValidatorRegistry_for cfg state shardsProcessed (i + 1))
      else Inr True)"
  by pat_completeness auto
termination
proof (relation "measure (\<lambda>(cfg, state, shardsProcessed, i). unat shardsProcessed - unat i)")
  show "wf (measure (\<lambda>(cfg, state, shardsProcessed, i). unat shardsProcessed - unat i))"
    by simp
next
  fix cfg :: BeaconChainConfig and state :: BeaconState and shardsProcessed i :: uint64
  assume less: "i < shardsProcessed"
  then have lt: "unat i < unat shardsProcessed"
    by (simp add: word_less_nat_alt)
  have "unat shardsProcessed < 2 ^ 64"
    using unsigned_less [of shardsProcessed] by simp
  with lt have "unat i + unat (1 :: uint64) < 2 ^ LENGTH(64)"
    by simp
  then have "unat (i + 1) = unat i + 1"
    by (simp add: unat_add_lem [THEN iffD1])
  with lt show "((cfg, state, shardsProcessed, i + 1), (cfg, state, shardsProcessed, i))
      \<in> measure (\<lambda>(cfg, state, shardsProcessed, i). unat shardsProcessed - unat i)"
    by simp
qed

definition CanProcessValidatorRegistry ::
  "BeaconChainConfig \<Rightarrow> helpers_package \<Rightarrow> BeaconState \<Rightarrow> error + bool" where
  "CanProcessValidatorRegistry cfg helpers state =
     (if FinalizedEpoch state \<le> ValidatorRegistryUpdateEpoch state then Inr False
      else
        let shardsProcessed = CurrentEpochCommitteeCount helpers state * SlotsPerEpoch cfg;
            startShard = CurrentShufflingStartShard state
        in CanProcessValidatorRegistry_for cfg state shardsProcessed startShard)"

subsection \<open>ProcessEth1Data\<close>

text \<open>
  The \<open>for _, eth1DataVote := range state.Eth1DataVotes\<close> loop, threading the
  state: every vote whose doubled count exceeds the budget overwrites
  \<open>LatestEth1Data\<close>.
\<close>

fun ProcessEth1Data_range ::
  "BeaconChainConfig \<Rightarrow> Eth1DataVote list \<Rightarrow> BeaconState \<Rightarrow> BeaconState" where
  "ProcessEth1Data_range cfg [] state = state"
| "ProcessEth1Data_range cfg (eth1DataVote # votes) state =
     ProcessEth1Data_range cfg votes
       (if VoteCount eth1DataVote * 2 > SlotsPerEpoch cfg * EpochsPerEth1VotingPeriod cfg
        then state\<lparr>LatestEth1Data := Eth1Data eth1DataVote\<rparr>
        else state)"

definition ProcessEth1Data :: "BeaconChainConfig \<Rightarrow> BeaconState \<Rightarrow> BeaconState" where
  "ProcessEth1Data cfg state =
     (ProcessEth1Data_range cfg (Eth1DataVotes state) state)\<lparr>Eth1DataVotes := []\<rparr>"

text \<open>
  The earlier revision of the same function: it re-checks the voting-period
  boundary itself (\<open>helpers.NextEpoch\<close> is a parameter, the helpers package not being
  part of the sources), compares against \<open>Eth1DataVotingPeriod\<close> alone and copies
  the two fields of the vote's data one by one. \<open>%\<close> by a zero period panics.
\<close>

fun ProcessEth1Data_legacy_range ::
  "BeaconChainConfig \<Rightarrow> Eth1DataVote list \<Rightarrow> BeaconState \<Rightarrow> BeaconState" where
  "ProcessEth1Data_legacy_range cfg [] state = state"
| "ProcessEth1Data_legacy_range cfg (eth1DataVote # votes) state =
     ProcessEth1Data_legacy_range cfg votes
       (if VoteCount eth1DataVote * 2 > Eth1DataVotingPeriod cfg
        then state\<lparr>LatestEth1Data := (LatestEth1Data state)
               \<lparr>DepositRootHash32 := DepositRootHash32 (Eth1Data eth1DataVote),
                BlockHash32 := BlockHash32 (Eth1Data eth1DataVote)\<rparr>\<rparr>
        else state)"

definition ProcessEth1Data_legacy ::
  "BeaconChainConfig \<Rightarrow> helpers_package \<Rightarrow> BeaconState \<Rightarrow> error + BeaconState" where
  "ProcessEth1Data_legacy cfg helpers state =
     (if Eth1DataVotingPeriod cfg = 0 then Inl DivideByZero
      else if NextEpoch helpers state mod Eth1DataVotingPeriod cfg = 0
      then Inr ((ProcessEth1Data_legacy_range cfg (Eth1DataVotes state) state)
                  \<lparr>Eth1DataVotes := []\<rparr>)
      else Inr state)"

subsection \<open>ProcessJustification\<close>

text \<open>
  The function assigns to four fields of the state. The assignments are kept in the
  source's order, on local copies of the fields written more than once
  (\<open>justificationBitfield\<close> for \<open>state.JustificationBitfield\<close>, \<open>finalizedEpoch\<close> for
  \<open>state.FinalizedEpoch\<close>); \<open>state.PreviousJustifiedEpoch\<close> and
  \<open>state.JustifiedEpoch\<close> are written last, so every read of them before sees the
  values at entry. Logging is left out.
\<close>

definition ProcessJustification ::
  "helpers_package \<Rightarrow> BeaconState \<Rightarrow> uint64 \<Rightarrow> uint64 \<Rightarrow> uint64 \<Rightarrow> uint64 \<Rightarrow> BeaconState" where
  "ProcessJustification helpers state thisEpochBoundaryAttestingBalance
       prevEpochBoundaryAttestingBalance prevTotalBalance totalBalance =
     (let newJustifiedEpoch = JustifiedEpoch state;
          prevEpoch = PrevEpoch helpers state;
          currentEpoch = CurrentEpoch helpers state;
          justificationBitfield = push_bit 1 (JustificationBitfield state);
          (justificationBitfield, newJustifiedEpoch) =
            (if 3 * prevEpochBoundaryAttestingBalance \<ge> 2 * prevTotalBalance
             then (justificationBitfield OR 2, prevEpoch)
             else (justificationBitfield, newJustifiedEpoch));
          (justificationBitfield, newJustifiedEpoch) =
            (if 3 * thisEpochBoundaryAttestingBalance \<ge> 2 * totalBalance
             then (justificationBitfield OR 1, currentEpoch)
             else (justificationBitfield, newJustifiedEpoch));
          finalizedEpoch = FinalizedEpoch state;
          finalizedEpoch =
            (if PreviousJustifiedEpoch state = prevEpoch - 2 \<and>
                drop_bit 1 justificationBitfield mod 8 = 7
             then PreviousJustifiedEpoch state else finalizedEpoch);
          finalizedEpoch =
            (if PreviousJustifiedEpoch state = prevEpoch - 1 \<and>
                drop_bit 1 justificationBitfield mod 4 = 3
             then PreviousJustifiedEpoch state else finalizedEpoch);
          finalizedEpoch =
            (if JustifiedEpoch state = prevEpoch - 1 \<and>
                drop_bit 0 justificationBitfield mod 8 = 7
             then JustifiedEpoch state else finalizedEpoch);
          finalizedEpoch =
            (if JustifiedEpoch state = prevEpoch \<and>
                drop_bit 0 justificationBitfield mod 4 = 3
             then JustifiedEpoch state else finalizedEpoch)
      in state\<lparr>JustificationBitfield := justificationBitfield,
               FinalizedEpoch := finalizedEpoch,
               PreviousJustifiedEpoch := JustifiedEpoch state,
               JustifiedEpoch := newJustifiedEpoch\<rparr>)"

text \<open>
  The earlier revision splits the work over two functions: \<open>ProcessJustification\<close>
  (one total balance for both comparisons, the justified epoch written at once) and
  \<open>ProcessFinalization\<close>.
\<close>

definition ProcessJustification_legacy ::
  "helpers_package \<Rightarrow> BeaconState \<Rightarrow> uint64 \<Rightarrow> uint64 \<Rightarrow> uint64 \<Rightarrow> BeaconState" where
  "ProcessJustification_legacy helpers state thisEpochBoundaryAttestingBalance
       prevEpochBoundaryAttestingBalance totalBalance =
     (let state = state\<lparr>PreviousJustifiedEpoch := JustifiedEpoch state\<rparr>;
          state = state\<lparr>JustificationBitfield := JustificationBitfield state * 2\<rparr>;
          state =
            (if 3 * prevEpochBoundaryAttestingBalance \<ge> 2 * totalBalance
             then let state = state\<lparr>JustificationBitfield := JustificationBitfield state OR 2\<rparr>
                  in state\<lparr>JustifiedEpoch := CurrentEpoch helpers state - 2\<rparr>
             else state);
          state =
            (if 3 * thisEpochBoundaryAttestingBalance \<ge> 2 * totalBalance
             then let state = state\<lparr>JustificationBitfield := JustificationBitfield state OR 1\<rparr>
                  in state\<lparr>JustifiedEpoch := CurrentEpoch helpers state - 1\<rparr>
             else state)
      in state)"


section \<open>Epoch queries (beacon-chain/core/epoch/epoch\_operations.go)\<close>

text \<open>
  The functions of the packages \<open>blocks\<close> (imported as \<open>block\<close>) and \<open>validators\<close>
  that the queries call are parameters, for the same reason as the helpers.
  \<open>BlockRoot\<close> and \<open>AttestingValidatorIndices\<close> return a value or an error.
\<close>

record block_package =
  BlockRoot :: "BeaconState \<Rightarrow> uint64 \<Rightarrow> error + bytes"


subsection \<open>CurrentBoundaryAttestations\<close>

text \<open>
  \<open>var boundarySlot uint64\<close> is declared and never assigned: it holds Go's zero
  value when the loop passes it to \<open>block.BlockRoot\<close>. The loop compares
  \<open>attestationData.JustifiedBlockRootHash32\<close> with the root it gets.
\<close>

fun CurrentBoundaryAttestations_range ::
  "block_package \<Rightarrow> BeaconState \<Rightarrow> uint64 \<Rightarrow> PendingAttestation list \<Rightarrow>
     PendingAttestation list \<Rightarrow> error + PendingAttestation list" where
  "CurrentBoundaryAttestations_range block state boundarySlot [] boundaryAttestations =
     Inr boundaryAttestations"
| "CurrentBoundaryAttestations_range block state boundarySlot (attestation # rest)
       boundaryAttestations =
     (case BlockRoot block state boundarySlot of
        Inl err \<Rightarrow> Inl err
      | Inr boundaryBlockRoot \<Rightarrow>
          let attestationData = Data attestation;
              sameRoot = (JustifiedBlockRootHash32 attestationData = boundaryBlockRoot);
              sameEpoch = (AttestationData.JustifiedEpoch (Data attestation) = JustifiedEpoch state)
          in CurrentBoundaryAttestations_range block state boundarySlot rest
               (if sameRoot \<and> sameEpoch then boundaryAttestations @ [attestation]
                else boundaryAttestations))"

definition CurrentBoundaryAttestations ::
  "block_package \<Rightarrow> BeaconState \<Rightarrow> PendingAttestation list \<Rightarrow> error + PendingAttestation list" where
  "CurrentBoundaryAttestations block state currentEpochAttestations =
     CurrentBoundaryAttestations_range block state 0 currentEpochAttestations []"

subsection \<open>PrevBoundaryAttestations\<close>

text \<open>
  The sibling query for the previous epoch: the root is looked up once, at the
  first slot of the previous epoch, and compared with
  \<open>attestation.Data.EpochBoundaryRootHash32\<close>.
\<close>

definition PrevBoundaryAttestations ::
  "helpers_package \<Rightarrow> block_package \<Rightarrow> BeaconState \<Rightarrow> PendingAttestation list \<Rightarrow>
     error + PendingAttestation list" where
  "PrevBoundaryAttestations helpers block state prevEpochJustifiedAttestations =
     (case BlockRoot block state (StartSlot helpers (PrevEpoch helpers state)) of
        Inl err \<Rightarrow> Inl err
      | Inr prevBoundaryBlockRoot \<Rightarrow>
          Inr (filter (\<lambda>attestation.
                 EpochBoundaryRootHash32 (Data attestation) = prevBoundaryBlockRoot)
               prevEpochJustifiedAttestations))"

subsection \<open>winningRoot\<close>






section \<open>Deposit trie (shared/trie/deposit\_trie.go)\<close>

text \<open>
  \<open>merkleHashes\<close> is a Go map from node index to \<open>[32]byte\<close>; reading a key that
  was never written gives the zero value, 32 zero bytes. \<open>hashutil.Hash\<close> is a
  parameter. The \<open>fmt.Printf\<close> calls only print and are left out.
\<close>

record DepositTrie =
  depositCount :: uint64
  merkleHashes :: "uint64 \<rightharpoonup> bytes"

definition zeroHash :: bytes where
  "zeroHash = replicate 32 0"

definition readHash :: "(uint64 \<rightharpoonup> bytes) \<Rightarrow> uint64 \<Rightarrow> bytes" where
  "readHash hashes index = (case hashes index of None \<Rightarrow> zeroHash | Some h \<Rightarrow> h)"

definition NewDepositTrie :: DepositTrie where
  "NewDepositTrie = \<lparr>depositCount = 0, merkleHashes = Map.empty\<rparr>"

text \<open>
  \<open>1 << DepositContractTreeDepth\<close>, converted to \<open>uint64\<close>: a shift by 64 or more
  gives 0.
\<close>

definition twoToPowerOfTreeDepth :: "BeaconChainConfig \<Rightarrow> uint64" where
  "twoToPowerOfTreeDepth cfg = push_bit (unat (DepositContractTreeDepth cfg)) 1"

text \<open>The loops run \<open>DepositContractTreeDepth\<close> (or \<open>depth\<close>) times; the first argument counts the rounds left.\<close>

fun UpdateDepositTrie_for ::
  "(bytes \<Rightarrow> bytes) \<Rightarrow> nat \<Rightarrow> uint64 \<Rightarrow> (uint64 \<rightharpoonup> bytes) \<Rightarrow> (uint64 \<rightharpoonup> bytes)" where
  "UpdateDepositTrie_for Hash 0 index hashes = hashes"
| "UpdateDepositTrie_for Hash (Suc rounds) index hashes =
     (let index = index div 2;
          left = readHash hashes (index * 2);
          right = readHash hashes (index * 2 + 1)
      in UpdateDepositTrie_for Hash rounds index (hashes(index \<mapsto> Hash (left @ right))))"

definition UpdateDepositTrie ::
  "BeaconChainConfig \<Rightarrow> (bytes \<Rightarrow> bytes) \<Rightarrow> DepositTrie \<Rightarrow> bytes \<Rightarrow> DepositTrie" where
  "UpdateDepositTrie cfg Hash d depositData =
     (let index = depositCount d + twoToPowerOfTreeDepth cfg;
          hashes = (merkleHashes d)(index \<mapsto> Hash depositData);
          hashes = UpdateDepositTrie_for Hash (unat (DepositContractTreeDepth cfg)) index hashes
      in \<lparr>depositCount = depositCount d + 1, merkleHashes = hashes\<rparr>)"

fun GenerateMerkleBranch_for :: "nat \<Rightarrow> uint64 \<Rightarrow> (uint64 \<rightharpoonup> bytes) \<Rightarrow> bytes list" where
  "GenerateMerkleBranch_for 0 idx hashes = []"
| "GenerateMerkleBranch_for (Suc rounds) idx hashes =
     (if idx mod 2 = 1 then readHash hashes (idx - 1) else readHash hashes (idx + 1))
       # GenerateMerkleBranch_for rounds (idx div 2) hashes"

definition GenerateMerkleBranch :: "BeaconChainConfig \<Rightarrow> DepositTrie \<Rightarrow> uint64 \<Rightarrow> bytes list" where
  "GenerateMerkleBranch cfg d index =
     GenerateMerkleBranch_for (unat (DepositContractTreeDepth cfg))
       (index + twoToPowerOfTreeDepth cfg) (merkleHashes d)"

definition Root :: "DepositTrie \<Rightarrow> bytes" where
  "Root d = readHash (merkleHashes d) 1"

text \<open>
  The loop of \<open>VerifyMerkleBranch\<close>: \<open>i\<close> counts up, \<open>idx\<close> is tested in every round
  and assigned in none. \<open>branch[i]\<close> past the end of \<open>branch\<close> panics.
\<close>

fun VerifyMerkleBranch_for ::
  "(bytes \<Rightarrow> bytes) \<Rightarrow> bytes list \<Rightarrow> uint64 \<Rightarrow> nat \<Rightarrow> nat \<Rightarrow> bytes \<Rightarrow> error + bytes" where
  "VerifyMerkleBranch_for Hash branch idx 0 i val = Inr val"
| "VerifyMerkleBranch_for Hash branch idx (Suc rounds) i val =
     (if length branch \<le> i then Inl IndexOutOfRange
      else if idx mod 2 = 1
      then VerifyMerkleBranch_for Hash branch idx rounds (i + 1) (Hash (branch ! i @ val))
      else VerifyMerkleBranch_for Hash branch idx rounds (i + 1) (Hash (val @ branch ! i)))"

definition VerifyMerkleBranch ::
  "BeaconChainConfig \<Rightarrow> (bytes \<Rightarrow> bytes) \<Rightarrow> bytes \<Rightarrow> bytes list \<Rightarrow> uint64 \<Rightarrow> uint64 \<Rightarrow> bytes \<Rightarrow>
     error + bool" where
  "VerifyMerkleBranch cfg Hash leaf branch depth index root =
     (let idx = index + twoToPowerOfTreeDepth cfg
      in case VerifyMerkleBranch_for Hash branch idx (unat depth) 0 leaf of
           Inl panic \<Rightarrow> Inl panic
         | Inr val \<Rightarrow> Inr (val = root))"

section \<open>State transition (package state)\<close>

text \<open>
  The transition functions take and return \<open>*pb.BeaconState\<close>, and assign to the
  fields of the object they are given. The objects live in a heap, a pointer is an
  address, and a function that takes a state pointer takes the heap and returns the
  heap it leaves. A returned \<open>nil, err\<close> is \<open>Inl err\<close>: no pointer comes back.
\<close>

type_synonym ptr = nat
type_synonym heap = "ptr \<Rightarrow> BeaconState"

text \<open>
  The operations of package \<open>blocks\<close> (imported as \<open>b\<close>) that the transition calls,
  as parameters. \<open>b.ProcessEth1Data\<close> is the field \<open>b_ProcessEth1Data\<close>, the name
  \<open>ProcessEth1Data\<close> being the epoch package's function above.
\<close>

record 'body b_package =
  ProcessBlockRoots :: "heap \<Rightarrow> ptr \<Rightarrow> bytes \<Rightarrow> heap \<times> ptr"
  VerifyProposerSignature :: "'body BeaconBlock \<Rightarrow> error option"
  ProcessBlockRandao :: "heap \<Rightarrow> ptr \<Rightarrow> 'body BeaconBlock \<Rightarrow> heap \<times> (error + ptr)"
  ProcessProposerSlashings ::
    "heap \<Rightarrow> ptr \<Rightarrow> 'body BeaconBlock \<Rightarrow> bool \<Rightarrow> heap \<times> (error + ptr)"
  b_ProcessEth1Data :: "heap \<Rightarrow> ptr \<Rightarrow> 'body BeaconBlock \<Rightarrow> heap \<times> ptr"
  ProcessAttesterSlashings ::
    "heap \<Rightarrow> ptr \<Rightarrow> 'body BeaconBlock \<Rightarrow> bool \<Rightarrow> heap \<times> (error + ptr)"
  ProcessBlockAttestations ::
    "heap \<Rightarrow> ptr \<Rightarrow> 'body BeaconBlock \<Rightarrow> bool \<Rightarrow> heap \<times> (error + ptr)"
  ProcessValidatorDeposits :: "heap \<Rightarrow> ptr \<Rightarrow> 'body BeaconBlock \<Rightarrow> heap \<times> (error + ptr)"
  ProcessValidatorExits ::
    "heap \<Rightarrow> ptr \<Rightarrow> 'body BeaconBlock \<Rightarrow> bool \<Rightarrow> heap \<times> (error + ptr)"

subsection \<open>ProcessBlock\<close>

text \<open>
  After the slot check and the signature check, \<open>ProcessBlock\<close> is a straight line
  of calls \<open>state, err = b.Step(state, block, ...)\<close>, each followed by
  \<open>if err != nil { return nil, fmt.Errorf(message, err) }\<close>. The calls, in the
  source's order, each with its message; \<open>b.ProcessEth1Data\<close> returns no error.
\<close>

definition ProcessBlock_steps ::
  "'body b_package \<Rightarrow> 'body BeaconBlock \<Rightarrow> bool \<Rightarrow>
     (string \<times> (heap \<Rightarrow> ptr \<Rightarrow> heap \<times> (error + ptr))) list" where
  "ProcessBlock_steps b block verifySignatures =
     [(''could not verify and process block randao'',
         \<lambda>h state. ProcessBlockRandao b h state block),
      (''could not verify block proposer slashings'',
         \<lambda>h state. ProcessProposerSlashings b h state block verifySignatures),
      ('''',
         \<lambda>h state. case b_ProcessEth1Data b h state block of (h, state) \<Rightarrow> (h, Inr state)),
      (''could not verify block attester slashings'',
         \<lambda>h state. ProcessAttesterSlashings b h state block verifySignatures),
      (''could not process block attestations'',
         \<lambda>h state. ProcessBlockAttestations b h state block verifySignatures),
      (''could not process block validator deposits'',
         \<lambda>h state. ProcessValidatorDeposits b h state block),
      (''could not process validator exits'',
         \<lambda>h state. ProcessValidatorExits b h state block verifySignatures)]"

fun run_steps ::
  "(string \<times> (heap \<Rightarrow> ptr \<Rightarrow> heap \<times> (error + ptr))) list \<Rightarrow> heap \<Rightarrow> ptr \<Rightarrow>
     heap \<times> (error + ptr)" where
  "run_steps [] h state = (h, Inr state)"
| "run_steps ((message, step) # steps) h state =
     (case step h state of
        (h, Inl err) \<Rightarrow> (h, Inl (Errorf message err))
      | (h, Inr state) \<Rightarrow> run_steps steps h state)"

definition ProcessBlock ::
  "'body b_package \<Rightarrow> heap \<Rightarrow> ptr \<Rightarrow> 'body BeaconBlock \<Rightarrow> bool \<Rightarrow> heap \<times> (error + ptr)" where
  "ProcessBlock b h state block verifySignatures =
     (if BeaconBlock.Slot block \<noteq> Slot (h state)
      then (h, Inl (Failure ''block.slot != state.slot''))
      else case (if verifySignatures then VerifyProposerSignature b block else None) of
          Some err \<Rightarrow> (h, Inl (Errorf ''could not verify proposer signature'' err))
        | None \<Rightarrow> run_steps (ProcessBlock_steps b block verifySignatures) h state)"

subsection \<open>ExecuteStateTransition\<close>

text \<open>
  \<open>ProcessEpoch\<close> is a parameter: its steps are functions of packages outside the
  sources. \<open>e.CanProcessEpoch\<close> is the earlier revision's, the one with the
  signatures this file calls.
\<close>

definition ExecuteStateTransition ::
  "BeaconChainConfig \<Rightarrow> 'body b_package \<Rightarrow> (heap \<Rightarrow> ptr \<Rightarrow> heap \<times> (error + ptr)) \<Rightarrow>
     heap \<Rightarrow> ptr \<Rightarrow> 'body BeaconBlock option \<Rightarrow> bytes \<Rightarrow> bool \<Rightarrow> heap \<times> (error + ptr)" where
  "ExecuteStateTransition cfg b ProcessEpoch h beaconState block prevBlockRoot verifySignatures =
     (let currentSlot = Slot (h beaconState);
          h = h(beaconState := (h beaconState)\<lparr>Slot := currentSlot + 1\<rparr>);
          (h, beaconState) = ProcessBlockRoots b h beaconState prevBlockRoot
      in case block of
           None \<Rightarrow> (h, Inr beaconState)
         | Some block \<Rightarrow>
             (case ProcessBlock b h beaconState block verifySignatures of
                (h, Inl err) \<Rightarrow> (h, Inl (Errorf ''unable to process block'' err))
              | (h, Inr beaconState) \<Rightarrow>
                  (case CanProcessEpoch_legacy cfg (h beaconState) of
                     Inl panic \<Rightarrow> (h, Inl panic)
                   | Inr True \<Rightarrow>
                       (case ProcessEpoch h beaconState of
                          (h, Inl err) \<Rightarrow> (h, Inl (Errorf ''unable to process epoch'' err))
                        | (h, Inr beaconState) \<Rightarrow> (h, Inr beaconState))
                   | Inr False \<Rightarrow> (h, Inr beaconState))))"

section \<open>Notions used to state the properties\<close>


section \<open>Example inputs\<close>

text \<open>
  A configuration with the values the tests of the repository check for
  (64 slots per epoch, 1024 shards), and a state at slot 63 with empty lists.
\<close>

definition example_config :: BeaconChainConfig where
  "example_config =
     \<lparr>SlotsPerEpoch = 64, EpochLength = 64, ShardCount = 1024,
      EpochsPerEth1VotingPeriod = 16, Eth1DataVotingPeriod = 16,
      DepositContractTreeDepth = 32\<rparr>"

definition example_state :: BeaconState where
  "example_state =
     \<lparr>Slot = 63, ValidatorBalances = [], ValidatorRegistryUpdateEpoch = 0,
      CurrentShufflingStartShard = 0, PreviousJustifiedEpoch = 0, JustifiedEpoch = 0,
      JustificationBitfield = 0, FinalizedEpoch = 0, LatestCrosslinks = [],
      LatestBlockRootHash32S = [], LatestRandaoMixes = [], LatestAttestations = [],
      LatestEth1Data = \<lparr>DepositRootHash32 = [], BlockHash32 = []\<rparr>,
      Eth1DataVotes = []\<rparr>"

text \<open>
  An instance of the helpers package that agrees with the package's tests: the epoch
  of a slot is \<open>slot / 64\<close>, the previous epoch of epoch 0 is epoch 0.
\<close>

definition example_helpers :: helpers_package where
  "example_helpers =
     \<lparr>CurrentEpoch = (\<lambda>state. Slot state div 64),
      PrevEpoch = (\<lambda>state. if Slot state div 64 = 0 then 0 else Slot state div 64 - 1),
      NextEpoch = (\<lambda>state. Slot state div 64 + 1),
      StartSlot = (\<lambda>epoch. epoch * 64),
      CurrentEpochCommitteeCount = (\<lambda>state. 1)\<rparr>"

text \<open>
  Two states in epoch 4 (slot 319) whose bitfield records the previous epoch as
  justified. In the first the finality fields are ordered
  (finalized 1, previous justified 2, justified 3); the second differs only in a
  finalized epoch of 10, ahead of both justified epochs.
\<close>

definition ordered_state :: BeaconState where
  "ordered_state =
     example_state\<lparr>Slot := 319, PreviousJustifiedEpoch := 2, JustifiedEpoch := 3,
       JustificationBitfield := 1, FinalizedEpoch := 1\<rparr>"


definition vote_A :: Eth1DataVote where
  "vote_A = \<lparr>Eth1Data = \<lparr>DepositRootHash32 = [1], BlockHash32 = [1]\<rparr>, VoteCount = 600\<rparr>"

definition vote_B :: Eth1DataVote where
  "vote_B = \<lparr>Eth1Data = \<lparr>DepositRootHash32 = [2], BlockHash32 = [2]\<rparr>, VoteCount = 700\<rparr>"

definition vote_C :: Eth1DataVote where
  "vote_C = \<lparr>Eth1Data = \<lparr>DepositRootHash32 = [3], BlockHash32 = [3]\<rparr>, VoteCount = 10\<rparr>"

text \<open>A vote whose count is \<open>2 ^ 63\<close>: doubled in uint64 it is 0.\<close>

definition vote_wrapped :: Eth1DataVote where
  "vote_wrapped =
     \<lparr>Eth1Data = \<lparr>DepositRootHash32 = [4], BlockHash32 = [4]\<rparr>,
      VoteCount = 9223372036854775808\<rparr>"

text \<open>
  A state whose finalized epoch (5) is past the last registry update (3), whose
  1024 crosslinks all date from epoch 2, and whose current shuffling starts at
  shard 64; with one committee per slot the current committees touch shards 64 to 127.
\<close>

definition stale_crosslinks_state :: BeaconState where
  "stale_crosslinks_state =
     example_state\<lparr>FinalizedEpoch := 5, ValidatorRegistryUpdateEpoch := 3,
       CurrentShufflingStartShard := 64,
       LatestCrosslinks := replicate 1024 \<lparr>Epoch = 2, CrosslinkDataRootHash32 = []\<rparr>\<rparr>"

text \<open>
  A block-root lookup that reads \<open>LatestBlockRootHash32S\<close> at the slot, and a state
  in epoch 1 (slot 127) whose recorded roots are \<open>[10]\<close> for slots 0 to 63 and
  \<open>[20]\<close> for slot 64, the first slot of the current epoch. Attestation
  \<open>boundary_vote\<close> names the root of slot 64 as its epoch boundary root and the
  state's justified epoch; \<open>other_vote\<close> names an epoch boundary root that is no
  recorded root, and the root of slot 0 as its justified block root.
  \<open>epoch2_state\<close> is the same state one epoch later, at slot 191.
\<close>

definition example_block :: block_package where
  "example_block =
     \<lparr>BlockRoot = (\<lambda>state slot.
        if unat slot < length (LatestBlockRootHash32S state)
        then Inr (LatestBlockRootHash32S state ! unat slot)
        else Inl (Failure ''slot out of bounds''))\<rparr>"

definition epoch1_state :: BeaconState where
  "epoch1_state =
     example_state\<lparr>Slot := 127, LatestBlockRootHash32S := replicate 64 [10] @ [[20]]\<rparr>"

definition epoch2_state :: BeaconState where
  "epoch2_state = epoch1_state\<lparr>Slot := 191\<rparr>"

definition boundary_vote :: PendingAttestation where
  "boundary_vote =
     \<lparr>Data = \<lparr>AttestationData.Slot = 70, Shard = 0, BeaconBlockRootHash32 = [],
               EpochBoundaryRootHash32 = [20], ShardBlockRootHash32 = [],
               JustifiedEpoch = 0, JustifiedBlockRootHash32 = [30]\<rparr>,
      AggregationBitfield = [], InclusionSlot = 71\<rparr>"

definition other_vote :: PendingAttestation where
  "other_vote =
     \<lparr>Data = \<lparr>AttestationData.Slot = 70, Shard = 0, BeaconBlockRootHash32 = [],
               EpochBoundaryRootHash32 = [99], ShardBlockRootHash32 = [],
               JustifiedEpoch = 0, JustifiedBlockRootHash32 = [10]\<rparr>,
      AggregationBitfield = [], InclusionSlot = 71\<rparr>"

text \<open>A configuration with a deposit tree of depth 2: leaves at nodes 4 to 7.\<close>

definition depth2_config :: BeaconChainConfig where
  "depth2_config = example_config\<lparr>DepositContractTreeDepth := 2\<rparr>"

text \<open>
  A stand-in for the hash function, for running the trie on concrete bytes: the
  first 32 bytes of the input, padded with zeros.
\<close>

definition first32 :: "bytes \<Rightarrow> bytes" where
  "first32 input = take 32 (input @ replicate 32 0)"

text \<open>
  An instance of the block operations that work in place on the object they are
  given: \<open>ProcessBlockRoots\<close> appends the root to the recorded roots,
  \<open>ProcessBlockRandao\<close> appends the block's body to the randao mixes,
  \<open>ProcessBlockAttestations\<close> rejects a block with an empty body, and the other
  operations accept and change nothing. The stand-in for \<open>ProcessEpoch\<close> writes
  99 to the finalized epoch.
\<close>

definition example_b :: "bytes b_package" where
  "example_b =
     \<lparr>ProcessBlockRoots = (\<lambda>h state root.
        (h(state := (h state)\<lparr>LatestBlockRootHash32S := LatestBlockRootHash32S (h state) @ [root]\<rparr>),
         state)),
      VerifyProposerSignature = (\<lambda>block. None),
      ProcessBlockRandao = (\<lambda>h state block.
        (h(state := (h state)\<lparr>LatestRandaoMixes := LatestRandaoMixes (h state) @ [Body block]\<rparr>),
         Inr state)),
      ProcessProposerSlashings = (\<lambda>h state block verifySignatures. (h, Inr state)),
      b_ProcessEth1Data = (\<lambda>h state block. (h, state)),
      ProcessAttesterSlashings = (\<lambda>h state block verifySignatures. (h, Inr state)),
      ProcessBlockAttestations = (\<lambda>h state block verifySignatures.
        if Body block = [] then (h, Inl (Failure ''invalid attestation'')) else (h, Inr state)),
      ProcessValidatorDeposits = (\<lambda>h state block. (h, Inr state)),
      ProcessValidatorExits = (\<lambda>h state block verifySignatures. (h, Inr state))\<rparr>"

definition example_ProcessEpoch :: "heap \<Rightarrow> ptr \<Rightarrow> heap \<times> (error + ptr)" where
  "example_ProcessEpoch h state = (h(state := (h state)\<lparr>FinalizedEpoch := 99\<rparr>), Inr state)"

definition example_heap :: heap where
  "example_heap = (\<lambda>address. example_state)"





section \<open>Properties of ProcessEth1Data\<close>

lemma ProcessEth1Data_range_votes [simp]:
  "Eth1DataVotes (ProcessEth1Data_range cfg votes state) = Eth1DataVotes state"
  by (induction votes arbitrary: state) simp_all

lemma ProcessEth1Data_range_latest:
  "LatestEth1Data (ProcessEth1Data_range cfg votes state) =
     (case filter (\<lambda>v. VoteCount v * 2 > SlotsPerEpoch cfg * EpochsPerEth1VotingPeriod cfg) votes of
        [] \<Rightarrow> LatestEth1Data state
      | q # qs \<Rightarrow> Eth1Data (last (q # qs)))"
proof (induction votes arbitrary: state)
  case Nil
  show ?case by simp
next
  case (Cons v votes)
  show ?case
    by (simp add: Cons.IH split: list.splits)
qed

lemma ProcessEth1Data_legacy_range_votes [simp]:
  "Eth1DataVotes (ProcessEth1Data_legacy_range cfg votes state) = Eth1DataVotes state"
  by (induction votes arbitrary: state) simp_all

lemma ProcessEth1Data_legacy_range_latest:
  "LatestEth1Data (ProcessEth1Data_legacy_range cfg votes state) =
     (case filter (\<lambda>v. VoteCount v * 2 > Eth1DataVotingPeriod cfg) votes of
        [] \<Rightarrow> LatestEth1Data state
      | q # qs \<Rightarrow> Eth1Data (last (q # qs)))"
proof (induction votes arbitrary: state)
  case Nil
  show ?case by simp
next
  case (Cons v votes)
  show ?case
    by (simp add: Cons.IH split: list.splits)
qed

lemma ProcessEth1Data_legacy_clears:
  "Eth1DataVotingPeriod cfg \<noteq> 0 \<Longrightarrow>
   NextEpoch helpers state mod Eth1DataVotingPeriod cfg = 0 \<Longrightarrow>
   \<exists>state'. ProcessEth1Data_legacy cfg helpers state = Inr state' \<and> Eth1DataVotes state' = []"
  by (simp add: ProcessEth1Data_legacy_def)

text \<open>
  The comparison is made on 64-bit words. As long as the doubled count and the
  budget fit in 64 bits it is the comparison of the numbers themselves.
\<close>

lemma doubled_count_exceeds_nat:
  fixes c a b :: uint64
  assumes "unat c < 2 ^ 63" and "unat a * unat b < 2 ^ 64"
  shows "(a * b < c * 2) = (unat a * unat b < 2 * unat c)"
proof -
  have "unat (c * 2) = 2 * unat c"
    using assms(1) by (simp add: unat_word_ariths)
  moreover have "unat (a * b) = unat a * unat b"
    using assms(2) by (simp add: unat_word_ariths)
  ultimately show ?thesis
    by (simp add: word_less_nat_alt)
qed

lemma example_budget:
  "unat (SlotsPerEpoch example_config) * unat (EpochsPerEth1VotingPeriod example_config) = 1024"
  by (simp add: example_config_def)

lemma example_counts:
  "unat (VoteCount vote_A) = 600" "unat (VoteCount vote_B) = 700" "unat (VoteCount vote_C) = 10"
  by (simp_all add: vote_A_def vote_B_def vote_C_def)

text \<open>
  C9 (as amended). At the eth1-data step of epoch processing, when the slot budget
  (slots-per-epoch times epochs-per-voting-period) is below \<open>2 ^ 64\<close> and the counts
  are below \<open>2 ^ 63\<close>, so that the code's uint64 products are the numbers themselves:
  if the count of a vote of the list, doubled, exceeds the slot budget, and every later
  vote of the list whose doubled count exceeds the budget carries the same
  \<open>eth1_data\<close>, then \<open>latest_eth1_data\<close> is set to that vote's \<open>eth1_data\<close>, and the
  vote list is cleared. This is the later revision of the step; the earlier one
  compares the doubled count with the voting period alone, as
  \<open>ProcessEth1Data_legacy_range_latest\<close> shows.
\<close>

theorem ProcessEth1Data_adopts_last_vote_over_budget:
  assumes votes: "Eth1DataVotes state = before @ v # after"
    and budget: "unat (SlotsPerEpoch cfg) * unat (EpochsPerEth1VotingPeriod cfg) < 2 ^ 64"
    and counts: "\<forall>w \<in> set (v # after). unat (VoteCount w) < 2 ^ 63"
    and over: "unat (SlotsPerEpoch cfg) * unat (EpochsPerEth1VotingPeriod cfg)
        < 2 * unat (VoteCount v)"
    and later: "\<forall>w \<in> set after.
        unat (SlotsPerEpoch cfg) * unat (EpochsPerEth1VotingPeriod cfg) < 2 * unat (VoteCount w) \<longrightarrow>
        Eth1Data w = Eth1Data v"
  shows "LatestEth1Data (ProcessEth1Data cfg state) = Eth1Data v \<and>
         Eth1DataVotes (ProcessEth1Data cfg state) = []"
proof -
  let ?q = "\<lambda>w. VoteCount w * 2 > SlotsPerEpoch cfg * EpochsPerEth1VotingPeriod cfg"
  have q_nat: "?q w = (unat (SlotsPerEpoch cfg) * unat (EpochsPerEth1VotingPeriod cfg)
      < 2 * unat (VoteCount w))" if "w \<in> set (v # after)" for w
  proof -
    from counts that have "unat (VoteCount w) < 2 ^ 63"
      by blast
    from doubled_count_exceeds_nat [OF this budget] show ?thesis .
  qed
  from over have qv: "?q v"
    by (simp add: q_nat)
  from later have same: "\<forall>w \<in> set (filter ?q after). Eth1Data w = Eth1Data v"
    by (auto simp: q_nat)
  have split: "filter ?q (Eth1DataVotes state) = filter ?q before @ v # filter ?q after"
    using qv by (simp add: votes)
  then have last: "last (filter ?q (Eth1DataVotes state)) = last (v # filter ?q after)"
    by simp
  have "last (v # filter ?q after) \<in> set (v # filter ?q after)"
    by (rule last_in_set) simp
  with same have "Eth1Data (last (v # filter ?q after)) = Eth1Data v"
    by auto
  with last have data: "Eth1Data (last (filter ?q (Eth1DataVotes state))) = Eth1Data v"
    by simp
  from split have "filter ?q (Eth1DataVotes state) \<noteq> []"
    by simp
  then obtain q qs where qs: "filter ?q (Eth1DataVotes state) = q # qs"
    by (cases "filter ?q (Eth1DataVotes state)") simp_all
  have "LatestEth1Data (ProcessEth1Data cfg state) =
      Eth1Data (last (filter ?q (Eth1DataVotes state)))"
    by (simp add: ProcessEth1Data_def ProcessEth1Data_range_latest qs)
  with data show ?thesis
    by (simp add: ProcessEth1Data_def)
qed

theorem ProcessEth1Data_adopts_last_vote_over_budget_witness:
  "Eth1DataVotes (example_state\<lparr>Eth1DataVotes := [vote_A, vote_B, vote_C]\<rparr>)
     = [vote_A] @ vote_B # [vote_C] \<and>
   unat (SlotsPerEpoch example_config) * unat (EpochsPerEth1VotingPeriod example_config)
     < 2 * unat (VoteCount vote_B) \<and>
   LatestEth1Data (ProcessEth1Data example_config
       (example_state\<lparr>Eth1DataVotes := [vote_A, vote_B, vote_C]\<rparr>)) = Eth1Data vote_B \<and>
   Eth1DataVotes (ProcessEth1Data example_config
       (example_state\<lparr>Eth1DataVotes := [vote_A, vote_B, vote_C]\<rparr>)) = []"
proof -
  have votes: "Eth1DataVotes (example_state\<lparr>Eth1DataVotes := [vote_A, vote_B, vote_C]\<rparr>)
      = [vote_A] @ vote_B # [vote_C]"
    by simp
  have budget: "unat (SlotsPerEpoch example_config) *
      unat (EpochsPerEth1VotingPeriod example_config) < 2 ^ 64"
    by (simp add: example_budget)
  have counts: "\<forall>w \<in> set (vote_B # [vote_C]). unat (VoteCount w) < 2 ^ 63"
    by (simp add: example_counts)
  have over: "unat (SlotsPerEpoch example_config) *
      unat (EpochsPerEth1VotingPeriod example_config) < 2 * unat (VoteCount vote_B)"
    by (simp add: example_budget example_counts)
  have later: "\<forall>w \<in> set [vote_C].
      unat (SlotsPerEpoch example_config) * unat (EpochsPerEth1VotingPeriod example_config)
        < 2 * unat (VoteCount w) \<longrightarrow>
      Eth1Data w = Eth1Data vote_B"
    by (simp add: example_budget example_counts)
  from ProcessEth1Data_adopts_last_vote_over_budget [OF votes budget counts over later]
    votes over
  show ?thesis
    by blast
qed

text \<open>
  The claim as stated, for any vote over the budget and for every state, fails in two
  ways. With two votes over the budget that carry different data, the data of the
  first is not the one adopted. And a count of \<open>2 ^ 63\<close>, doubled, exceeds the budget
  of 1024, but its uint64 double is 0: the vote is not adopted and
  \<open>latest_eth1_data\<close> stays as it was.
\<close>

theorem ProcessEth1Data_vote_over_budget_not_adopted_counterexample:
  "vote_A \<in> set [vote_A, vote_B] \<and>
   unat (SlotsPerEpoch example_config) * unat (EpochsPerEth1VotingPeriod example_config)
     < 2 * unat (VoteCount vote_A) \<and>
   LatestEth1Data (ProcessEth1Data example_config
       (example_state\<lparr>Eth1DataVotes := [vote_A, vote_B]\<rparr>)) = Eth1Data vote_B \<and>
   Eth1Data vote_B \<noteq> Eth1Data vote_A \<and>
   unat (SlotsPerEpoch example_config) * unat (EpochsPerEth1VotingPeriod example_config)
     < 2 * unat (VoteCount vote_wrapped) \<and>
   LatestEth1Data (ProcessEth1Data example_config
       (example_state\<lparr>Eth1DataVotes := [vote_wrapped]\<rparr>)) = LatestEth1Data example_state \<and>
   LatestEth1Data example_state \<noteq> Eth1Data vote_wrapped"
  by (simp add: ProcessEth1Data_def example_config_def example_state_def
        vote_A_def vote_B_def vote_wrapped_def)

text \<open>
  C10. Whenever the epoch-level eth1-data step runs, the vote list of the
  post-state is empty, whether or not a vote met the threshold; when no vote met
  it \<open>latest_eth1_data\<close> is unchanged, and when one or several did,
  \<open>latest_eth1_data\<close> is the \<open>eth1_data\<close> of the last such vote in list order.
\<close>

theorem ProcessEth1Data_clears_always_last_vote_wins:
  "Eth1DataVotes (ProcessEth1Data cfg state) = [] \<and>
   LatestEth1Data (ProcessEth1Data cfg state) =
     (case filter (\<lambda>v. VoteCount v * 2 > SlotsPerEpoch cfg * EpochsPerEth1VotingPeriod cfg)
             (Eth1DataVotes state) of
        [] \<Rightarrow> LatestEth1Data state
      | q # qs \<Rightarrow> Eth1Data (last (q # qs)))"
  by (simp add: ProcessEth1Data_def ProcessEth1Data_range_latest)

theorem ProcessEth1Data_clears_always_last_vote_wins_witness:
  "Eth1DataVotes (ProcessEth1Data example_config (example_state\<lparr>Eth1DataVotes := [vote_A, vote_B, vote_C]\<rparr>)) = [] \<and>
   LatestEth1Data (ProcessEth1Data example_config (example_state\<lparr>Eth1DataVotes := [vote_A, vote_B, vote_C]\<rparr>))
     = Eth1Data vote_B \<and>
   Eth1DataVotes (ProcessEth1Data example_config (example_state\<lparr>Eth1DataVotes := [vote_C]\<rparr>)) = [] \<and>
   LatestEth1Data (ProcessEth1Data example_config (example_state\<lparr>Eth1DataVotes := [vote_C]\<rparr>))
     = LatestEth1Data example_state"
  using ProcessEth1Data_clears_always_last_vote_wins
    [of example_config "example_state\<lparr>Eth1DataVotes := [vote_A, vote_B, vote_C]\<rparr>"]
    ProcessEth1Data_clears_always_last_vote_wins
    [of example_config "example_state\<lparr>Eth1DataVotes := [vote_C]\<rparr>"]
  by (simp add: example_config_def vote_A_def vote_B_def vote_C_def)

section \<open>Properties of ProcessJustification\<close>

lemma bit_shift_left_one:
  fixes w :: uint64
  shows "bit (push_bit 1 w) n = (1 \<le> n \<and> n < 64 \<and> bit w (n - 1))"
  by (simp only: bit_push_bit_iff possible_bit_word) simp

lemma bit_two_word: "bit (2 :: uint64) n = (n = 1)"
proof -
  have "(2 :: uint64) = push_bit 1 1"
    by simp
  then have "bit (2 :: uint64) n = bit (push_bit 1 (1 :: uint64)) n"
    by (simp only:)
  also have "\<dots> = (1 \<le> n \<and> n < 64 \<and> bit (1 :: uint64) (n - 1))"
    by (simp only: bit_shift_left_one)
  also have "\<dots> = (n = 1)"
    by (auto simp: bit_1_iff)
  finally show ?thesis .
qed

lemma bit_if_word: "bit (if p then a else (0 :: uint64)) n = (p \<and> bit a n)"
  by simp

lemma bits_after_justification:
  fixes w :: uint64
  shows "bit (push_bit 1 w OR (if p then 2 else 0) OR (if c then 1 else 0)) n =
     ((n = 0 \<and> c) \<or> (n = 1 \<and> (p \<or> bit w 0)) \<or> (2 \<le> n \<and> n < 64 \<and> bit w (n - 1)))"
  apply (simp only: bit_or_iff bit_shift_left_one bit_if_word bit_two_word bit_1_iff)
  apply (cases "n = 0"; cases "n = 1")
     apply auto
  done

lemma ProcessJustification_bitfield:
  "JustificationBitfield (ProcessJustification helpers state thisBalance prevBalance prevTotalBalance totalBalance) =
     push_bit 1 (JustificationBitfield state)
       OR (if 3 * prevBalance \<ge> 2 * prevTotalBalance then 2 else 0)
       OR (if 3 * thisBalance \<ge> 2 * totalBalance then 1 else 0)"
  by (simp add: ProcessJustification_def Let_def split_def or.assoc)

lemma ProcessJustification_justified:
  "JustifiedEpoch (ProcessJustification helpers state thisBalance prevBalance prevTotalBalance totalBalance) =
     (if 3 * thisBalance \<ge> 2 * totalBalance then CurrentEpoch helpers state
      else if 3 * prevBalance \<ge> 2 * prevTotalBalance then PrevEpoch helpers state
      else JustifiedEpoch state)"
  by (simp add: ProcessJustification_def Let_def split_def)

lemma ProcessJustification_previous_justified:
  "PreviousJustifiedEpoch (ProcessJustification helpers state thisBalance prevBalance prevTotalBalance totalBalance) =
     JustifiedEpoch state"
  by (simp add: ProcessJustification_def Let_def split_def)



lemma ProcessJustification_legacy_fields:
  "JustificationBitfield (ProcessJustification_legacy helpers state thisBalance prevBalance totalBalance) =
     JustificationBitfield state * 2
       OR (if 3 * prevBalance \<ge> 2 * totalBalance then 2 else 0)
       OR (if 3 * thisBalance \<ge> 2 * totalBalance then 1 else 0)"
  "PreviousJustifiedEpoch (ProcessJustification_legacy helpers state thisBalance prevBalance totalBalance) =
     JustifiedEpoch state"
  by (simp_all add: ProcessJustification_legacy_def Let_def or.assoc)

text \<open>
  The comparisons \<open>3 * a \<ge> 2 * b\<close> are made on 64-bit words; they are the
  comparisons of the numbers themselves as long as both products fit in 64 bits.
\<close>

lemma supermajority_nat:
  fixes a b :: uint64
  assumes "3 * unat a < 2 ^ 64" and "2 * unat b < 2 ^ 64"
  shows "(2 * b \<le> 3 * a) = (2 * unat b \<le> 3 * unat a)"
proof -
  have "unat (3 * a) = 3 * unat a"
    using assms(1) by (simp add: unat_word_ariths)
  moreover have "unat (2 * b) = 2 * unat b"
    using assms(2) by (simp add: unat_word_ariths)
  ultimately show ?thesis
    by (simp add: word_le_nat_alt)
qed

text \<open>
  C6 (as amended). For every state and all balances for which three times each
  boundary-attesting balance and twice each total balance are below \<open>2 ^ 64\<close>, so
  that the code's uint64 products are the numbers themselves: the justification step
  shifts \<open>justification_bitfield\<close> left by one bit, so that the new low bit starts as
  0 and every other bit is the old bit below it. It sets bit 1 and takes the previous
  epoch as the new justified epoch when
  \<open>3 * previous-epoch-boundary-balance \<ge> 2 * previous-total-balance\<close>; it sets bit 0
  and takes the current epoch when
  \<open>3 * current-epoch-boundary-balance \<ge> 2 * current-total-balance\<close>; when both
  hold the current epoch is the one recorded. The old justified epoch becomes the
  previous justified epoch. This is the later revision of the step; the earlier one
  compares both boundary balances with one total balance, as
  \<open>ProcessJustification_legacy_fields\<close> shows.
\<close>

theorem ProcessJustification_thresholds_without_overflow:
  assumes "3 * unat thisBalance < 2 ^ 64" and "2 * unat totalBalance < 2 ^ 64"
    and "3 * unat prevBalance < 2 ^ 64" and "2 * unat prevTotalBalance < 2 ^ 64"
  shows "(\<forall>n. bit (JustificationBitfield
             (ProcessJustification helpers state thisBalance prevBalance prevTotalBalance totalBalance)) n =
      ((n = 0 \<and> 2 * unat totalBalance \<le> 3 * unat thisBalance) \<or>
       (n = 1 \<and> (2 * unat prevTotalBalance \<le> 3 * unat prevBalance \<or>
                  bit (JustificationBitfield state) 0)) \<or>
       (2 \<le> n \<and> n < 64 \<and> bit (JustificationBitfield state) (n - 1)))) \<and>
   JustifiedEpoch (ProcessJustification helpers state thisBalance prevBalance prevTotalBalance totalBalance) =
     (if 2 * unat totalBalance \<le> 3 * unat thisBalance then CurrentEpoch helpers state
      else if 2 * unat prevTotalBalance \<le> 3 * unat prevBalance then PrevEpoch helpers state
      else JustifiedEpoch state) \<and>
   PreviousJustifiedEpoch (ProcessJustification helpers state thisBalance prevBalance prevTotalBalance totalBalance) =
     JustifiedEpoch state"
proof -
  have this_nat: "(2 * totalBalance \<le> 3 * thisBalance) =
      (2 * unat totalBalance \<le> 3 * unat thisBalance)"
    using assms(1,2) by (rule supermajority_nat)
  have prev_nat: "(2 * prevTotalBalance \<le> 3 * prevBalance) =
      (2 * unat prevTotalBalance \<le> 3 * unat prevBalance)"
    using assms(3,4) by (rule supermajority_nat)
  show ?thesis
    by (simp only: ProcessJustification_bitfield ProcessJustification_justified
          ProcessJustification_previous_justified bits_after_justification
          this_nat prev_nat) simp
qed

theorem ProcessJustification_thresholds_without_overflow_witness:
  "3 * unat (2 :: uint64) < 2 ^ 64 \<and> 2 * unat (3 :: uint64) < 2 ^ 64 \<and>
   2 * unat (3 :: uint64) \<le> 3 * unat (2 :: uint64) \<and>
   bit (JustificationBitfield (ProcessJustification example_helpers ordered_state 2 2 3 3)) 0 \<and>
   bit (JustificationBitfield (ProcessJustification example_helpers ordered_state 2 2 3 3)) 1 \<and>
   JustifiedEpoch (ProcessJustification example_helpers ordered_state 2 2 3 3) = 4 \<and>
   PreviousJustifiedEpoch (ProcessJustification example_helpers ordered_state 2 2 3 3) = 3"
proof -
  have fits: "3 * unat (2 :: uint64) < 2 ^ 64" "2 * unat (3 :: uint64) < 2 ^ 64"
    by simp_all
  from ProcessJustification_thresholds_without_overflow
    [OF fits fits, of example_helpers ordered_state]
  show ?thesis
    by (simp add: example_helpers_def ordered_state_def example_state_def)
qed

text \<open>
  The claim as stated, for every pair of balances, fails when a product passes
  \<open>2 ^ 64\<close>. With a current-epoch boundary balance of 6148914691236517206 and a
  total balance of 2, three times the boundary balance is more than twice the total
  balance, but the uint64 product \<open>3 * 6148914691236517206\<close> is 2 and \<open>2 * 2\<close> is 4:
  bit 0 is not set, and the justified epoch stays 3 while the current epoch is 4.
\<close>

theorem ProcessJustification_overflow_counterexample:
  "2 * unat (2 :: uint64) \<le> 3 * unat (6148914691236517206 :: uint64) \<and>
   \<not> bit (JustificationBitfield
       (ProcessJustification example_helpers ordered_state 6148914691236517206 0 3 2)) 0 \<and>
   CurrentEpoch example_helpers ordered_state = 4 \<and>
   JustifiedEpoch
       (ProcessJustification example_helpers ordered_state 6148914691236517206 0 3 2) = 3"
  by (simp add: ProcessJustification_bitfield ProcessJustification_justified
        bits_after_justification example_helpers_def ordered_state_def example_state_def
        word_le_nat_alt)




section \<open>Properties of CanProcessValidatorRegistry\<close>

declare CanProcessValidatorRegistry_for.simps [simp del]

lemma CanProcessValidatorRegistry_empty_range:
  assumes "ValidatorRegistryUpdateEpoch state < FinalizedEpoch state"
    and "CurrentEpochCommitteeCount helpers state * SlotsPerEpoch cfg \<le> CurrentShufflingStartShard state"
  shows "CanProcessValidatorRegistry cfg helpers state = Inr True"
proof -
  from assms(1) have "\<not> FinalizedEpoch state \<le> ValidatorRegistryUpdateEpoch state"
    by simp
  moreover from assms(2) have
    "\<not> CurrentShufflingStartShard state < CurrentEpochCommitteeCount helpers state * SlotsPerEpoch cfg"
    by simp
  ultimately show ?thesis
    by (simp add: CanProcessValidatorRegistry_def Let_def CanProcessValidatorRegistry_for.simps)
qed

text \<open>
  C8. The claim: \<open>CanProcessValidatorRegistry\<close> is true exactly when the finalized
  epoch is past the last registry update and every shard touched by the current
  committees (the \<open>CurrentEpochCommitteeCount * SlotsPerEpoch\<close> shards starting at the
  current shuffling start shard, modulo the shard count) has a crosslink newer than
  the registry update. The loop of the code runs \<open>i\<close> from the start shard up to the
  number of shards, not up to the start shard plus that number. In
  \<open>stale_crosslinks_state\<close> the start shard is 64 and the number of shards is 64: the
  loop reads no crosslink and the function returns true, although the crosslink of
  shard 64, like every other, is older than the registry update. With start shard 0
  the same crosslinks make it return false.
\<close>

theorem CanProcessValidatorRegistry_skips_shards:
  "CanProcessValidatorRegistry example_config example_helpers stale_crosslinks_state = Inr True \<and>
   CurrentShufflingStartShard stale_crosslinks_state = 64 \<and>
   CurrentEpochCommitteeCount example_helpers stale_crosslinks_state * SlotsPerEpoch example_config = 64 \<and>
   Epoch (LatestCrosslinks stale_crosslinks_state ! 64) \<le> ValidatorRegistryUpdateEpoch stale_crosslinks_state \<and>
   CanProcessValidatorRegistry example_config example_helpers
     (stale_crosslinks_state\<lparr>CurrentShufflingStartShard := 0\<rparr>) = Inr False"
  by (simp add: CanProcessValidatorRegistry_def Let_def CanProcessValidatorRegistry_for.simps
        example_config_def example_helpers_def stale_crosslinks_state_def example_state_def)

section \<open>Properties of CurrentBoundaryAttestations\<close>

lemma CurrentBoundaryAttestations_range_eq:
  "BlockRoot block state boundarySlot = Inr r \<Longrightarrow>
   CurrentBoundaryAttestations_range block state boundarySlot attestations acc =
     Inr (acc @ filter (\<lambda>a. JustifiedBlockRootHash32 (Data a) = r \<and>
                   AttestationData.JustifiedEpoch (Data a) = JustifiedEpoch state) attestations)"
  by (induction attestations arbitrary: acc) (simp_all add: Let_def)

lemma CurrentBoundaryAttestations_range_err:
  "BlockRoot block state boundarySlot = Inl err \<Longrightarrow>
   CurrentBoundaryAttestations_range block state boundarySlot attestations acc =
     (if attestations = [] then Inr acc else Inl err)"
  by (cases attestations) simp_all

lemma CurrentBoundaryAttestations_eq:
  "CurrentBoundaryAttestations block state attestations =
     (case BlockRoot block state 0 of
        Inl err \<Rightarrow> if attestations = [] then Inr [] else Inl err
      | Inr r \<Rightarrow> Inr (filter (\<lambda>a. JustifiedBlockRootHash32 (Data a) = r \<and>
                   AttestationData.JustifiedEpoch (Data a) = JustifiedEpoch state) attestations))"
  by (simp add: CurrentBoundaryAttestations_def CurrentBoundaryAttestations_range_eq
        CurrentBoundaryAttestations_range_err split: sum.splits)

lemma PrevBoundaryAttestations_example:
  "PrevBoundaryAttestations example_helpers example_block epoch2_state [boundary_vote, other_vote]
     = Inr [boundary_vote]"
  by (simp add: PrevBoundaryAttestations_def example_helpers_def example_block_def
        epoch2_state_def epoch1_state_def example_state_def boundary_vote_def other_vote_def
        nth_append)

text \<open>
  C7. The claim: the current-epoch boundary attestations are exactly the
  current-epoch attestations whose \<open>epoch_boundary_root\<close> equals the block root at
  the first slot of the current epoch and whose \<open>justified_epoch\<close> equals the
  state's. The code looks the root up at slot 0 and compares it with the
  attestation's justified block root, as \<open>CurrentBoundaryAttestations_eq\<close> shows. In
  \<open>epoch1_state\<close>, \<open>boundary_vote\<close> meets both conditions of the claim and is left
  out, and \<open>other_vote\<close>, whose epoch boundary root is not the root of the epoch's
  first slot, is returned. One epoch later the sibling query for the previous epoch
  selects \<open>boundary_vote\<close> from the same two, as \<open>PrevBoundaryAttestations_example\<close>
  shows.
\<close>

theorem CurrentBoundaryAttestations_wrong_root:
  "CurrentBoundaryAttestations example_block epoch1_state [boundary_vote, other_vote] = Inr [other_vote] \<and>
   BlockRoot example_block epoch1_state (StartSlot example_helpers (CurrentEpoch example_helpers epoch1_state))
     = Inr (EpochBoundaryRootHash32 (Data boundary_vote)) \<and>
   AttestationData.JustifiedEpoch (Data boundary_vote) = JustifiedEpoch epoch1_state \<and>
   BlockRoot example_block epoch1_state (StartSlot example_helpers (CurrentEpoch example_helpers epoch1_state))
     \<noteq> Inr (EpochBoundaryRootHash32 (Data other_vote))"
  by (simp add: CurrentBoundaryAttestations_eq example_block_def epoch1_state_def example_state_def
        boundary_vote_def other_vote_def example_helpers_def nth_append)

section \<open>Properties of the deposit trie\<close>

lemma VerifyMerkleBranch_for_fold:
  "i + rounds \<le> length branch \<Longrightarrow>
   VerifyMerkleBranch_for Hash branch idx rounds i val =
     Inr (foldl (\<lambda>v sibling. if idx mod 2 = 1 then Hash (sibling @ v) else Hash (v @ sibling))
            val (take rounds (drop i branch)))"
proof (induction rounds arbitrary: i val)
  case 0
  show ?case by simp
next
  case (Suc rounds)
  then have i: "i < length branch" by simp
  from Suc.prems have "Suc i + rounds \<le> length branch" by simp
  from Suc.IH [OF this] i show ?case
    by (simp add: Cons_nth_drop_Suc [symmetric])
qed

lemma VerifyMerkleBranch_same_side_at_every_level:
  assumes "unat depth \<le> length branch"
  shows "VerifyMerkleBranch cfg Hash leaf branch depth index root =
     Inr (foldl (\<lambda>v sibling.
                   if (index + twoToPowerOfTreeDepth cfg) mod 2 = 1
                   then Hash (sibling @ v) else Hash (v @ sibling))
            leaf (take (unat depth) branch) = root)"
  using VerifyMerkleBranch_for_fold [of 0 "unat depth" branch Hash "index + twoToPowerOfTreeDepth cfg" leaf] assms
  by (simp add: VerifyMerkleBranch_def Let_def)

lemma UpdateDepositTrie_for_two:
  "UpdateDepositTrie_for Hash 2 index hashes =
     (let parent = index div 2;
          hashes = hashes(parent \<mapsto> Hash (readHash hashes (parent * 2) @ readHash hashes (parent * 2 + 1)));
          top = parent div 2
      in hashes(top \<mapsto> Hash (readHash hashes (top * 2) @ readHash hashes (top * 2 + 1))))"
  by (simp add: numeral_2_eq_2 Let_def)

lemma GenerateMerkleBranch_for_two:
  "GenerateMerkleBranch_for 2 idx hashes =
     [if idx mod 2 = 1 then readHash hashes (idx - 1) else readHash hashes (idx + 1),
      if idx div 2 mod 2 = 1 then readHash hashes (idx div 2 - 1) else readHash hashes (idx div 2 + 1)]"
  by (simp add: numeral_2_eq_2)

lemma VerifyMerkleBranch_for_two:
  "VerifyMerkleBranch_for Hash [first, second] idx 2 0 val =
     Inr (if idx mod 2 = 1 then Hash (second @ Hash (first @ val))
          else Hash (Hash (val @ first) @ second))"
  by (simp add: numeral_2_eq_2)

lemma depth2_config_values:
  "unat (DepositContractTreeDepth depth2_config) = 2"
  "twoToPowerOfTreeDepth depth2_config = 4"
  by (simp_all add: twoToPowerOfTreeDepth_def depth2_config_def example_config_def)

lemma zeroHash_head: "zeroHash = 0 # replicate 31 0"
  by (simp add: zeroHash_def numeral_eq_Suc)

text \<open>
  C3. The claim: after any sequence of inserts and for every index below the
  deposit count, \<open>VerifyMerkleBranch\<close> accepts the hash of that deposit with the
  branch \<open>GenerateMerkleBranch\<close> gives for the index, the depth, the index and the
  current root. In a trie of depth 2 holding two deposits, the check of the second
  deposit (index 1, node 5) returns whether
  \<open>Hash (zero @ n) = Hash (n @ zero)\<close>, \<open>n\<close> being the hash of the two leaves: in its
  second round the loop still tests the parity of the leaf's node index, so it puts
  the sibling on the left where the trie has it on the right. Unless the hash
  function collides on these two inputs the answer is false. The first deposit,
  whose node index is even at every level, is accepted.
\<close>

theorem VerifyMerkleBranch_second_deposit:
  "VerifyMerkleBranch depth2_config Hash (Hash secondData)
     (GenerateMerkleBranch depth2_config
        (UpdateDepositTrie depth2_config Hash
           (UpdateDepositTrie depth2_config Hash NewDepositTrie firstData) secondData) 1)
     2 1
     (Root (UpdateDepositTrie depth2_config Hash
              (UpdateDepositTrie depth2_config Hash NewDepositTrie firstData) secondData)) =
   Inr (Hash (zeroHash @ Hash (Hash firstData @ Hash secondData)) =
        Hash (Hash (Hash firstData @ Hash secondData) @ zeroHash))"
  by (simp add: VerifyMerkleBranch_def GenerateMerkleBranch_def UpdateDepositTrie_def Root_def
        NewDepositTrie_def depth2_config_values UpdateDepositTrie_for_two
        GenerateMerkleBranch_for_two VerifyMerkleBranch_for_two readHash_def Let_def)

theorem VerifyMerkleBranch_second_deposit_witness:
  "VerifyMerkleBranch depth2_config first32 (first32 [2])
     (GenerateMerkleBranch depth2_config
        (UpdateDepositTrie depth2_config first32
           (UpdateDepositTrie depth2_config first32 NewDepositTrie [1]) [2]) 1)
     2 1
     (Root (UpdateDepositTrie depth2_config first32
              (UpdateDepositTrie depth2_config first32 NewDepositTrie [1]) [2])) =
   Inr False"
  using VerifyMerkleBranch_second_deposit [where Hash = first32 and firstData = "[1]" and secondData = "[2]"]
  by (simp add: first32_def zeroHash_head)

lemma VerifyMerkleBranch_first_deposit:
  "VerifyMerkleBranch depth2_config Hash (Hash firstData)
     (GenerateMerkleBranch depth2_config
        (UpdateDepositTrie depth2_config Hash NewDepositTrie firstData) 0)
     2 0
     (Root (UpdateDepositTrie depth2_config Hash NewDepositTrie firstData)) = Inr True"
  by (simp add: VerifyMerkleBranch_def GenerateMerkleBranch_def UpdateDepositTrie_def Root_def
        NewDepositTrie_def depth2_config_values UpdateDepositTrie_for_two
        GenerateMerkleBranch_for_two VerifyMerkleBranch_for_two readHash_def Let_def)


section \<open>Properties of the state transition\<close>

lemma CanProcessEpoch_after_increment:
  "CanProcessEpoch_legacy cfg (state\<lparr>Slot := Slot state + 1\<rparr>) =
     (if EpochLength cfg = 0 then Inl DivideByZero
      else Inr ((Slot state + 1) mod EpochLength cfg = 0))"
  by (simp add: CanProcessEpoch_legacy_def)

lemma CanProcessEpoch_revisions:
  "SlotsPerEpoch cfg = EpochLength cfg \<Longrightarrow>
   CanProcessEpoch cfg state = CanProcessEpoch_legacy cfg (state\<lparr>Slot := Slot state + 1\<rparr>)"
  by (simp add: CanProcessEpoch_def CanProcessEpoch_legacy_def)

lemma ExecuteStateTransition_without_block:
  "ExecuteStateTransition cfg b ProcessEpoch h beaconState None prevBlockRoot verifySignatures =
     (case ProcessBlockRoots b
             (h(beaconState := (h beaconState)\<lparr>Slot := Slot (h beaconState) + 1\<rparr>))
             beaconState prevBlockRoot of
        (h', beaconState') \<Rightarrow> (h', Inr beaconState'))"
  by (simp add: ExecuteStateTransition_def Let_def split: prod.splits)

lemma ExecuteStateTransition_block_failure:
  assumes "ProcessBlockRoots b (h(beaconState := (h beaconState)\<lparr>Slot := Slot (h beaconState) + 1\<rparr>))
             beaconState prevBlockRoot = (h0, state0)"
    and "ProcessBlock b h0 state0 block verifySignatures = (h2, Inl err)"
  shows "ExecuteStateTransition cfg b ProcessEpoch h beaconState (Some block) prevBlockRoot verifySignatures =
     (h2, Inl (Errorf ''unable to process block'' err))"
  using assms by (simp add: ExecuteStateTransition_def Let_def)

lemma run_steps_failure:
  assumes "k < length steps"
    and "run_steps (take k steps) h0 state0 = (h1, Inr state1)"
    and "snd (steps ! k) h1 state1 = (h2, Inl err)"
  shows "run_steps steps h0 state0 = (h2, Inl (Errorf (fst (steps ! k)) err))"
  using assms
proof (induction steps arbitrary: k h0 state0)
  case Nil
  then show ?case by simp
next
  case (Cons step steps)
  obtain message f where step: "step = (message, f)"
    by (cases step)
  show ?case
  proof (cases k)
    case 0
    with Cons.prems step show ?thesis
      by simp
  next
    case (Suc j)
    with Cons.prems step obtain h' state' where first: "f h0 state0 = (h', Inr state')"
      and rest: "run_steps (take j steps) h' state' = (h1, Inr state1)"
      by (auto split: prod.splits sum.splits)
    from Cons.prems Suc have "j < length steps" and "snd (steps ! j) h1 state1 = (h2, Inl err)"
      by simp_all
    from Cons.IH [OF this(1) rest this(2)] first step Suc show ?thesis
      by simp
  qed
qed

text \<open>
  C1. The claim: the state transition performs epoch processing exactly when
  \<open>(slot + 1) mod SLOTS_PER_EPOCH = 0\<close> for the slot at entry, whether or not a block
  is present. The code calls \<open>ProcessEpoch\<close> only inside \<open>if block != nil\<close>; without a
  block the result does not depend on it, as \<open>ExecuteStateTransition_without_block\<close>
  shows. From slot 63, with 64 slots per epoch, the transition without a block
  returns the state at slot 64, for which \<open>CanProcessEpoch\<close> holds, with the
  finalized epoch still 0: \<open>example_ProcessEpoch\<close>, which writes 99, has not run. With
  a block for slot 64 it runs.
\<close>

theorem ExecuteStateTransition_without_block_skips_epoch:
  "Slot (example_heap 0) = 63 \<and>
   snd (ExecuteStateTransition example_config example_b example_ProcessEpoch example_heap 0
          None [7] True) = Inr 0 \<and>
   Slot (fst (ExecuteStateTransition example_config example_b example_ProcessEpoch example_heap 0
          None [7] True) 0) = 64 \<and>
   CanProcessEpoch_legacy example_config
     (fst (ExecuteStateTransition example_config example_b example_ProcessEpoch example_heap 0
          None [7] True) 0) = Inr True \<and>
   FinalizedEpoch (fst (ExecuteStateTransition example_config example_b example_ProcessEpoch example_heap 0
          None [7] True) 0) = 0 \<and>
   snd (ExecuteStateTransition example_config example_b example_ProcessEpoch example_heap 0
          (Some \<lparr>BeaconBlock.Slot = 64, Body = [1]\<rparr>) [7] True) = Inr 0 \<and>
   FinalizedEpoch (fst (ExecuteStateTransition example_config example_b example_ProcessEpoch example_heap 0
          (Some \<lparr>BeaconBlock.Slot = 64, Body = [1]\<rparr>) [7] True) 0) = 99"
  by (simp add: ExecuteStateTransition_def ProcessBlock_def ProcessBlock_steps_def Let_def
        CanProcessEpoch_legacy_def example_config_def example_b_def example_ProcessEpoch_def
        example_heap_def example_state_def)

text \<open>
  C2 (as amended). When a step of \<open>ProcessBlock\<close> fails (the slot check, the
  signature check or any of the seven operations), \<open>ProcessBlock\<close> and
  \<open>ExecuteStateTransition\<close> return no state, only the error of the failing step,
  wrapped in the step's message and in \<open>unable to process block\<close>; no later step
  runs. The state object is not restored: the heap that comes back is the one the
  failing step left, which holds the slot increment, the block-root update and the
  writes of the steps before.
\<close>

theorem failing_block_step_aborts_without_rollback:
  assumes roots: "ProcessBlockRoots b
        (h(beaconState := (h beaconState)\<lparr>Slot := Slot (h beaconState) + 1\<rparr>))
        beaconState prevBlockRoot = (h0, state0)"
  shows
    "(BeaconBlock.Slot block \<noteq> Slot (h0 state0) \<longrightarrow>
        ExecuteStateTransition cfg b ProcessEpoch h beaconState (Some block) prevBlockRoot verifySignatures =
          (h0, Inl (Errorf ''unable to process block'' (Failure ''block.slot != state.slot'')))) \<and>
     (BeaconBlock.Slot block = Slot (h0 state0) \<and> verifySignatures \<and>
      VerifyProposerSignature b block = Some err \<longrightarrow>
        ExecuteStateTransition cfg b ProcessEpoch h beaconState (Some block) prevBlockRoot verifySignatures =
          (h0, Inl (Errorf ''unable to process block''
                      (Errorf ''could not verify proposer signature'' err)))) \<and>
     (BeaconBlock.Slot block = Slot (h0 state0) \<and>
      (verifySignatures \<longrightarrow> VerifyProposerSignature b block = None) \<and>
      k < length (ProcessBlock_steps b block verifySignatures) \<and>
      run_steps (take k (ProcessBlock_steps b block verifySignatures)) h0 state0 = (h1, Inr state1) \<and>
      snd (ProcessBlock_steps b block verifySignatures ! k) h1 state1 = (h2, Inl err) \<longrightarrow>
        ExecuteStateTransition cfg b ProcessEpoch h beaconState (Some block) prevBlockRoot verifySignatures =
          (h2, Inl (Errorf ''unable to process block''
                      (Errorf (fst (ProcessBlock_steps b block verifySignatures ! k)) err))))"
proof (intro conjI impI)
  assume "BeaconBlock.Slot block \<noteq> Slot (h0 state0)"
  then have "ProcessBlock b h0 state0 block verifySignatures =
      (h0, Inl (Failure ''block.slot != state.slot''))"
    by (simp add: ProcessBlock_def)
  from ExecuteStateTransition_block_failure [OF roots this]
  show "ExecuteStateTransition cfg b ProcessEpoch h beaconState (Some block) prevBlockRoot verifySignatures =
          (h0, Inl (Errorf ''unable to process block'' (Failure ''block.slot != state.slot'')))" .
next
  assume "BeaconBlock.Slot block = Slot (h0 state0) \<and> verifySignatures \<and>
      VerifyProposerSignature b block = Some err"
  then have "ProcessBlock b h0 state0 block verifySignatures =
      (h0, Inl (Errorf ''could not verify proposer signature'' err))"
    by (simp add: ProcessBlock_def)
  from ExecuteStateTransition_block_failure [OF roots this]
  show "ExecuteStateTransition cfg b ProcessEpoch h beaconState (Some block) prevBlockRoot verifySignatures =
          (h0, Inl (Errorf ''unable to process block''
                      (Errorf ''could not verify proposer signature'' err)))" .
next
  assume a: "BeaconBlock.Slot block = Slot (h0 state0) \<and>
      (verifySignatures \<longrightarrow> VerifyProposerSignature b block = None) \<and>
      k < length (ProcessBlock_steps b block verifySignatures) \<and>
      run_steps (take k (ProcessBlock_steps b block verifySignatures)) h0 state0 = (h1, Inr state1) \<and>
      snd (ProcessBlock_steps b block verifySignatures ! k) h1 state1 = (h2, Inl err)"
  then have k: "k < length (ProcessBlock_steps b block verifySignatures)"
    and pre: "run_steps (take k (ProcessBlock_steps b block verifySignatures)) h0 state0 = (h1, Inr state1)"
    and fail: "snd (ProcessBlock_steps b block verifySignatures ! k) h1 state1 = (h2, Inl err)"
    by blast+
  from run_steps_failure [OF k pre fail] a have "ProcessBlock b h0 state0 block verifySignatures =
      (h2, Inl (Errorf (fst (ProcessBlock_steps b block verifySignatures ! k)) err))"
    by (auto simp add: ProcessBlock_def)
  from ExecuteStateTransition_block_failure [OF roots this]
  show "ExecuteStateTransition cfg b ProcessEpoch h beaconState (Some block) prevBlockRoot verifySignatures =
          (h2, Inl (Errorf ''unable to process block''
                      (Errorf (fst (ProcessBlock_steps b block verifySignatures ! k)) err)))" .
qed

theorem failing_block_step_aborts_without_rollback_witness:
  "ExecuteStateTransition example_config example_b example_ProcessEpoch example_heap 0
      (Some \<lparr>BeaconBlock.Slot = 64, Body = []\<rparr>) [7] True =
     (example_heap(0 := example_state\<lparr>Slot := 64, LatestBlockRootHash32S := [[7]],
                                      LatestRandaoMixes := [[]]\<rparr>),
      Inl (Errorf ''unable to process block''
            (Errorf ''could not process block attestations'' (Failure ''invalid attestation'')))) \<and>
   ExecuteStateTransition example_config example_b example_ProcessEpoch example_heap 0
      (Some \<lparr>BeaconBlock.Slot = 7, Body = [1]\<rparr>) [7] True =
     (example_heap(0 := example_state\<lparr>Slot := 64, LatestBlockRootHash32S := [[7]]\<rparr>),
      Inl (Errorf ''unable to process block'' (Failure ''block.slot != state.slot'')))"
  using failing_block_step_aborts_without_rollback
    [where b = example_b and h = example_heap and beaconState = 0 and prevBlockRoot = "[7]"
       and ?h0.0 = "example_heap(0 := example_state\<lparr>Slot := 64, LatestBlockRootHash32S := [[7]]\<rparr>)"
       and ?state0.0 = 0 and block = "\<lparr>BeaconBlock.Slot = 64, Body = []\<rparr>"
       and verifySignatures = True and k = 4
       and ?h1.0 = "example_heap(0 := example_state\<lparr>Slot := 64, LatestBlockRootHash32S := [[7]],
                                      LatestRandaoMixes := [[]]\<rparr>)"
       and ?state1.0 = 0
       and ?h2.0 = "example_heap(0 := example_state\<lparr>Slot := 64, LatestBlockRootHash32S := [[7]],
                                      LatestRandaoMixes := [[]]\<rparr>)"
       and err = "Failure ''invalid attestation''" and cfg = example_config
       and ProcessEpoch = example_ProcessEpoch]
    failing_block_step_aborts_without_rollback
    [where b = example_b and h = example_heap and beaconState = 0 and prevBlockRoot = "[7]"
       and ?h0.0 = "example_heap(0 := example_state\<lparr>Slot := 64, LatestBlockRootHash32S := [[7]]\<rparr>)"
       and ?state0.0 = 0 and block = "\<lparr>BeaconBlock.Slot = 7, Body = [1]\<rparr>"
       and verifySignatures = True and cfg = example_config
       and ProcessEpoch = example_ProcessEpoch]
  by (simp add: ProcessBlock_steps_def example_b_def example_heap_def example_state_def)

text \<open>
  The claim as stated, that the caller is left with the original state field for
  field, fails: a block for slot 64 whose attestations are rejected leaves the
  state object at slot 64, with the block root and the randao mix of the rejected
  block written, and the call returns an error and no state. A block for the wrong
  slot, rejected before any operation runs, leaves the object at slot 64 as well.
\<close>

theorem failed_block_leaves_state_changed_counterexample:
  "example_heap 0 = example_state \<and>
   snd (ExecuteStateTransition example_config example_b example_ProcessEpoch example_heap 0
          (Some \<lparr>BeaconBlock.Slot = 64, Body = []\<rparr>) [7] True) =
     Inl (Errorf ''unable to process block''
           (Errorf ''could not process block attestations'' (Failure ''invalid attestation''))) \<and>
   fst (ExecuteStateTransition example_config example_b example_ProcessEpoch example_heap 0
          (Some \<lparr>BeaconBlock.Slot = 64, Body = []\<rparr>) [7] True) 0 =
     example_state\<lparr>Slot := 64, LatestBlockRootHash32S := [[7]], LatestRandaoMixes := [[]]\<rparr> \<and>
   fst (ExecuteStateTransition example_config example_b example_ProcessEpoch example_heap 0
          (Some \<lparr>BeaconBlock.Slot = 64, Body = []\<rparr>) [7] True) 0 \<noteq> example_state \<and>
   snd (ExecuteStateTransition example_config example_b example_ProcessEpoch example_heap 0
          (Some \<lparr>BeaconBlock.Slot = 7, Body = [1]\<rparr>) [7] True) =
     Inl (Errorf ''unable to process block'' (Failure ''block.slot != state.slot'')) \<and>
   Slot (fst (ExecuteStateTransition example_config example_b example_ProcessEpoch example_heap 0
          (Some \<lparr>BeaconBlock.Slot = 7, Body = [1]\<rparr>) [7] True) 0) = 64 \<and>
   Slot example_state = 63"
  by (simp add: ExecuteStateTransition_def ProcessBlock_def ProcessBlock_steps_def Let_def
        example_config_def example_b_def example_ProcessEpoch_def
        example_heap_def example_state_def)

section \<open>Properties of winningRoot\<close>














end
